theory Spec2Isabelle
  imports Complex_Main "HOL-Library.Char_ord" "HOL-Library.List_Lexorder"
begin

section \<open>Personal finance tracker: the model of app.py\<close>

text \<open>
  The development follows \<^verbatim>\<open>app.py\<close> top to bottom: the transaction classes, the
  \<^verbatim>\<open>FinanceTracker\<close> that keeps the ledger in the session state, the pandas operations the
  script applies to the ledger's table, \<^verbatim>\<open>ReportGenerator.generate_report\<close> and the
  body of the page.

  Amounts are Python numbers (the form delivers floats), taken as the real numbers they
  denote. The aggregations are given twice: with the mathematical sums and differences,
  and, for what depends on the rounding of binary floating point, with float64
  arithmetic. Strings are byte strings in UTF-8.
\<close>

subsection \<open>Values\<close>

text \<open>A calendar date (\<^verbatim>\<open>datetime.date\<close>: year, month, day), as \<^verbatim>\<open>st.date_input\<close> returns it.\<close>

datatype date = Date int int int

text \<open>The clock reading of \<^verbatim>\<open>datetime.now()\<close>: year, month, day, hour, minute, second.\<close>

datatype datetime = Datetime int int int int int int

text \<open>
  The exceptions of the program. \<^verbatim>\<open>ValueError\<close> carries its message; it is what the
  specification calls a validation error. \<^verbatim>\<open>KeyError\<close> is raised by pandas when a
  column is looked up that the table does not have, and carries the key that pandas
  reports: the column's name, or for the column of a grouping the name after
  \<^verbatim>\<open>Column not found: \<close>.
\<close>

datatype error = ValueError string | KeyError string

subsection \<open>The transaction classes\<close>

text \<open>
  \<^verbatim>\<open>Transaction\<close> is abstract; its two subclasses \<^verbatim>\<open>Income\<close> and \<^verbatim>\<open>Expense\<close> inherit
  the constructor and the three fields \<^verbatim>\<open>_date\<close>, \<^verbatim>\<open>_category\<close>, \<^verbatim>\<open>_amount\<close> (selectors
  \<open>txn_date\<close>, \<open>txn_category\<close>, \<open>txn_amount\<close>: an Isabelle name cannot begin with an
  underscore).
\<close>

datatype transaction =
    Income (txn_date: date) (txn_category: string) (txn_amount: real)
  | Expense (txn_date: date) (txn_category: string) (txn_amount: real)

text \<open>
  \<^verbatim>\<open>Transaction.__init__(self, date, category, amount)\<close>, reached through the call
  \<^verbatim>\<open>cls(date, category, amount)\<close> of a subclass \<open>cls\<close>: three assignments and no
  \<^verbatim>\<open>raise\<close>, so the result is always the new object.
\<close>

definition Transaction_init ::
  "(date \<Rightarrow> string \<Rightarrow> real \<Rightarrow> transaction) \<Rightarrow> date \<Rightarrow> string \<Rightarrow> real \<Rightarrow> error + transaction" where
  "Transaction_init cls d c a = Inr (cls d c a)"

text \<open>The method \<^verbatim>\<open>apply\<close> (renamed: \<open>apply\<close> is a keyword of Isabelle).\<close>

fun apply_txn :: "transaction \<Rightarrow> real" where
  "apply_txn (Income d c a) = a"
| "apply_txn (Expense d c a) = - a"

fun get_type :: "transaction \<Rightarrow> string" where
  "get_type (Income d c a) = ''Income''"
| "get_type (Expense d c a) = ''Expense''"

subsection \<open>FinanceTracker\<close>

text \<open>
  The ledger is the list \<^verbatim>\<open>st.session_state.data\<close>. Before a tracker is constructed the
  session may not have the key \<^verbatim>\<open>data\<close> yet (\<open>None\<close>); \<^verbatim>\<open>FinanceTracker.__init__\<close>
  creates the empty list then and keeps an existing list otherwise. Every other method
  runs on a constructed tracker, so its state is the list itself.
\<close>

type_synonym ledger = "transaction list"

definition FinanceTracker_init :: "ledger option \<Rightarrow> ledger" where
  "FinanceTracker_init session_data = (case session_data of None \<Rightarrow> [] | Some xs \<Rightarrow> xs)"

text \<open>
  \<^verbatim>\<open>add_transaction\<close> returns the outcome of the call together with the ledger it leaves
  behind: an exception does not undo anything, so the ledger after a \<^verbatim>\<open>raise\<close> is the
  ledger at the moment of the \<^verbatim>\<open>raise\<close>.
\<close>

definition add_transaction :: "transaction \<Rightarrow> ledger \<Rightarrow> (error + unit) \<times> ledger" where
  "add_transaction transaction data =
     (if txn_amount transaction \<le> 0 then (Inl (ValueError ''Amount must be positive''), data)
      else (Inr (), data @ [transaction]))"

subsection \<open>The table: the pandas operations the script uses\<close>

text \<open>One row of the table, the dictionary that \<^verbatim>\<open>to_dataframe\<close> builds per transaction.\<close>

record row =
  date :: date
  t_type :: string
  category :: string
  amount :: real

text \<open>
  A \<^verbatim>\<open>DataFrame\<close>: its column labels and its rows. \<^verbatim>\<open>pd.DataFrame(records)\<close> takes
  the columns from the keys of the dictionaries, so the frame of an empty list has no
  column at all.
\<close>

record dataframe =
  columns :: "string list"
  rows :: "row list"

definition DataFrame :: "row list \<Rightarrow> dataframe" where
  "DataFrame records =
     \<lparr>columns = (if records = [] then [] else [''date'', ''t_type'', ''category'', ''amount'']),
      rows = records\<rparr>"

text \<open>\<^verbatim>\<open>df.empty\<close>: one of the two axes has length 0.\<close>

definition df_empty :: "dataframe \<Rightarrow> bool" where
  "df_empty df \<longleftrightarrow> columns df = [] \<or> rows df = []"

text \<open>\<^verbatim>\<open>df[df["t_type"] == v]\<close>: the rows whose type is \<open>v\<close>, under the same columns.\<close>

definition getitem_t_type_eq :: "string \<Rightarrow> dataframe \<Rightarrow> error + dataframe" where
  "getitem_t_type_eq v df =
     (if ''t_type'' \<in> set (columns df)
      then Inr (df\<lparr>rows := filter (\<lambda>r. t_type r = v) (rows df)\<rparr>)
      else Inl (KeyError ''t_type''))"

text \<open>\<^verbatim>\<open>df["amount"]\<close>: the column of amounts, in row order.\<close>

definition getitem_amount :: "dataframe \<Rightarrow> error + real list" where
  "getitem_amount df =
     (if ''amount'' \<in> set (columns df) then Inr (map amount (rows df))
      else Inl (KeyError ''amount''))"

text \<open>
  \<^verbatim>\<open>df.groupby("category")["amount"].sum()\<close>: a series with one entry per category that
  occurs, in sorted order of the categories, holding the sum of the amounts of the rows
  of that category.
\<close>

definition groupby_category_amount_sum :: "dataframe \<Rightarrow> error + (string \<times> real) list" where
  "groupby_category_amount_sum df =
     (if ''category'' \<notin> set (columns df) then Inl (KeyError ''category'')
      else if ''amount'' \<notin> set (columns df) then Inl (KeyError ''Column not found: amount'')
      else Inr (map (\<lambda>c. (c, sum_list (map amount (filter (\<lambda>r. category r = c) (rows df)))))
                    (sort (remdups (map category (rows df))))))"

text \<open>\<^verbatim>\<open>FinanceTracker.to_dataframe\<close>: one row per stored transaction, in ledger order.\<close>

definition to_dataframe :: "ledger \<Rightarrow> dataframe" where
  "to_dataframe data =
     DataFrame (map (\<lambda>t. \<lparr>date = txn_date t, t_type = get_type t,
                           category = txn_category t, amount = txn_amount t\<rparr>) data)"

subsection \<open>ReportGenerator\<close>

text \<open>
  A formatted string is kept as the sequence of its parts: literal text, a number put in
  by \<^verbatim>\<open>{...}\<close>, and a clock reading put in through \<^verbatim>\<open>strftime\<close> with its format.
\<close>

datatype piece = Text string | Number real | Strftime string datetime

text \<open>The rupee sign U+20B9 and the warning sign U+26A0 U+FE0F, in UTF-8.\<close>

definition rupee :: string where
  "rupee = [CHR 0xE2, CHR 0x82, CHR 0xB9]"

definition warning_sign :: string where
  "warning_sign = [CHR 0xE2, CHR 0x9A, CHR 0xA0, CHR 0xEF, CHR 0xB8, CHR 0x8F]"

text \<open>
  \<^verbatim>\<open>generate_report(df)\<close>, with the reading of the clock as a parameter. The two lookups
  of a sum raise in the order of the source.
\<close>

definition generate_report :: "datetime \<Rightarrow> dataframe \<Rightarrow> error + piece list" where
  "generate_report now df =
     (case getitem_t_type_eq ''Income'' df of Inl e \<Rightarrow> Inl e | Inr inc_df \<Rightarrow>
      case getitem_amount inc_df of Inl e \<Rightarrow> Inl e | Inr inc_amounts \<Rightarrow>
      case getitem_t_type_eq ''Expense'' df of Inl e \<Rightarrow> Inl e | Inr exp_df \<Rightarrow>
      case getitem_amount exp_df of Inl e \<Rightarrow> Inl e | Inr exp_amounts \<Rightarrow>
        let income = sum_list inc_amounts;
            expense = sum_list exp_amounts;
            balance = income - expense
        in Inr [Text (''PERSONAL FINANCE REPORT\<newline>------------------------\<newline>Total Income  : ''
                      @ rupee @ '' ''),
                Number income,
                Text (''\<newline>Total Expense : '' @ rupee @ '' ''),
                Number expense,
                Text (''\<newline>Savings/Loss  : '' @ rupee @ '' ''),
                Number balance,
                Text ''\<newline>\<newline>Generated on  : '',
                Strftime ''%d-%m-%Y %H:%M'' now,
                Text ''\<newline>''])"

text \<open>The numbers a formatted string shows, in order.\<close>

fun numbers :: "piece list \<Rightarrow> real list" where
  "numbers [] = []"
| "numbers (Number x # ps) = x # numbers ps"
| "numbers (p # ps) = numbers ps"

subsection \<open>The page\<close>

text \<open>
  The aggregation of the page (lines 123 to 125): income, expense and balance, computed
  on its own, apart from the report.
\<close>

definition ui_totals :: "dataframe \<Rightarrow> error + real \<times> real \<times> real" where
  "ui_totals df =
     (case getitem_t_type_eq ''Income'' df of Inl e \<Rightarrow> Inl e | Inr inc_df \<Rightarrow>
      case getitem_amount inc_df of Inl e \<Rightarrow> Inl e | Inr inc_amounts \<Rightarrow>
      case getitem_t_type_eq ''Expense'' df of Inl e \<Rightarrow> Inl e | Inr exp_df \<Rightarrow>
      case getitem_amount exp_df of Inl e \<Rightarrow> Inl e | Inr exp_amounts \<Rightarrow>
        let income = sum_list inc_amounts;
            expense = sum_list exp_amounts;
            balance = income - expense
        in Inr (income, expense, balance))"

text \<open>
  The data of the pie chart (lines 146 to 149): the expenses grouped by category, and
  nothing (\<open>None\<close>) when there is no expense row.
\<close>

definition pie_data :: "dataframe \<Rightarrow> error + (string \<times> real) list option" where
  "pie_data df =
     (case getitem_t_type_eq ''Expense'' df of Inl e \<Rightarrow> Inl e | Inr exp_df \<Rightarrow>
        if \<not> df_empty exp_df
        then (case groupby_category_amount_sum exp_df of Inl e \<Rightarrow> Inl e | Inr s \<Rightarrow> Inr (Some s))
        else Inr None)"

text \<open>
  What the body of the page shows (lines 117 to 165; titles and subheaders left out):
  either the notice of the last line, or the table, the three metrics, the warning, the
  bars, the pie and the report.
\<close>

record dashboard =
  table :: dataframe
  metrics :: "piece list list"
  warning :: "string option"
  bars :: "(string \<times> real) list"
  pie :: "(string \<times> real) list option"
  report_text :: "piece list"

datatype view = Info string | Dashboard dashboard

definition page :: "datetime \<Rightarrow> dataframe \<Rightarrow> error + view" where
  "page now df =
     (if \<not> df_empty df then
        (case ui_totals df of Inl e \<Rightarrow> Inl e | Inr (income, expense, balance) \<Rightarrow>
         case pie_data df of Inl e \<Rightarrow> Inl e | Inr p \<Rightarrow>
         case generate_report now df of Inl e \<Rightarrow> Inl e | Inr r \<Rightarrow>
           Inr (Dashboard
             \<lparr>table = df,
              metrics = [[Text (rupee @ '' ''), Number income],
                         [Text (rupee @ '' ''), Number expense],
                         [Text (rupee @ '' ''), Number balance]],
              warning = (if expense > income
                         then Some (warning_sign @ '' Warning: Expenses exceed Income!'')
                         else None),
              bars = [(''Income'', income), (''Expense'', expense)],
              pie = p,
              report_text = r\<rparr>))
      else Inr (Info ''No transactions added yet.''))"

text \<open>The numbers a view shows in its metrics, and the numbers of the report it shows.\<close>

fun metric_numbers :: "view \<Rightarrow> real list" where
  "metric_numbers (Info m) = []"
| "metric_numbers (Dashboard d) = concat (map numbers (metrics d))"

fun report_numbers :: "view \<Rightarrow> real list" where
  "report_numbers (Info m) = []"
| "report_numbers (Dashboard d) = numbers (report_text d)"

subsection \<open>Float64 sums\<close>










subsection \<open>Sessions\<close>

text \<open>
  The operations of a tracker, and the ledger after a sequence of them in a fresh
  session. An \<^verbatim>\<open>add_transaction\<close>, returning or raising (the script catches the
  ValueError), continues with the ledger that the call left; \<^verbatim>\<open>to_dataframe\<close> only
  reads; constructing the tracker again (each rerun of the script does) keeps the list
  of the session.
\<close>

datatype operation = Construct | AddTransaction transaction | ToDataframe

fun exec :: "operation \<Rightarrow> ledger \<Rightarrow> ledger" where
  "exec Construct data = FinanceTracker_init (Some data)"
| "exec (AddTransaction t) data = snd (add_transaction t data)"
| "exec ToDataframe data = data"

definition run :: "operation list \<Rightarrow> ledger" where
  "run ops = foldl (\<lambda>data op. exec op data) (FinanceTracker_init None) ops"

subsection \<open>The aggregates in the words of the specification\<close>

text \<open>
  The totals as the specification defines them, over the transactions themselves: the sum
  of the amounts of the transactions whose label is \<open>''Income''\<close>, respectively
  \<open>''Expense''\<close>, and per category the sum of the amounts of the expenses of that category.
\<close>

definition totalIncome :: "ledger \<Rightarrow> real" where
  "totalIncome xs = sum_list (map txn_amount (filter (\<lambda>t. get_type t = ''Income'') xs))"

definition totalExpense :: "ledger \<Rightarrow> real" where
  "totalExpense xs = sum_list (map txn_amount (filter (\<lambda>t. get_type t = ''Expense'') xs))"

definition categoryExpense :: "ledger \<Rightarrow> string \<Rightarrow> real" where
  "categoryExpense xs c =
     sum_list (map txn_amount (filter (\<lambda>t. get_type t = ''Expense'' \<and> txn_category t = c) xs))"

subsection \<open>The scenarios of the specification\<close>

text \<open>The four transactions of the first scenario of section 8, and a clock reading.\<close>

definition scenario :: ledger where
  "scenario = [Income (Date 2024 1 1) ''Salary'' 50000, Income (Date 2024 1 5) ''Salary'' 2000,
               Expense (Date 2024 1 10) ''Rent'' 15000, Expense (Date 2024 1 12) ''Food'' 3000]"

definition noon :: datetime where
  "noon = Datetime 2024 1 31 12 0 0"

section \<open>Properties\<close>

subsection \<open>The table of a ledger\<close>

lemma rows_to_dataframe:
  "rows (to_dataframe xs) =
     map (\<lambda>t. \<lparr>date = txn_date t, t_type = get_type t,
                 category = txn_category t, amount = txn_amount t\<rparr>) xs"
  by (simp add: to_dataframe_def DataFrame_def)

lemma columns_to_dataframe:
  "columns (to_dataframe xs) =
     (if xs = [] then [] else [''date'', ''t_type'', ''category'', ''amount''])"
  by (simp add: to_dataframe_def DataFrame_def)

lemma df_empty_to_dataframe: "df_empty (to_dataframe xs) \<longleftrightarrow> xs = []"
  by (simp add: df_empty_def columns_to_dataframe rows_to_dataframe)

lemma amounts_of_type:
  "sum_list (map amount (filter (\<lambda>r. t_type r = v) (rows (to_dataframe xs)))) =
   sum_list (map txn_amount (filter (\<lambda>t. get_type t = v) xs))"
  by (induction xs) (simp_all add: rows_to_dataframe)

lemma ui_totals_ledger:
  "ui_totals (to_dataframe xs) =
     (if xs = [] then Inl (KeyError ''t_type'')
      else Inr (totalIncome xs, totalExpense xs, totalIncome xs - totalExpense xs))"
  by (simp add: ui_totals_def getitem_t_type_eq_def getitem_amount_def columns_to_dataframe
      amounts_of_type totalIncome_def totalExpense_def Let_def)





lemma rows_of_type:
  "filter (\<lambda>r. t_type r = v) (rows (to_dataframe xs)) =
   rows (to_dataframe (filter (\<lambda>t. get_type t = v) xs))"
  by (induction xs) (simp_all add: rows_to_dataframe)

lemma categories_of_rows: "map category (rows (to_dataframe ys)) = map txn_category ys"
  by (simp add: rows_to_dataframe)

lemma amounts_of_category:
  "sum_list (map amount (filter (\<lambda>r. category r = c) (rows (to_dataframe ys)))) =
   sum_list (map txn_amount (filter (\<lambda>t. txn_category t = c) ys))"
  by (induction ys) (simp_all add: rows_to_dataframe)

lemma rows_to_dataframe_Nil: "rows (to_dataframe ys) = [] \<longleftrightarrow> ys = []"
  by (simp add: rows_to_dataframe)


lemma pie_data_ledger:
  "pie_data (to_dataframe xs) =
     (if xs = [] then Inl (KeyError ''t_type'')
      else if filter (\<lambda>t. get_type t = ''Expense'') xs = [] then Inr None
      else Inr (Some (map (\<lambda>c. (c, categoryExpense xs c))
                  (sort (remdups (map txn_category (filter (\<lambda>t. get_type t = ''Expense'') xs)))))))"
  by (simp add: pie_data_def getitem_t_type_eq_def df_empty_def groupby_category_amount_sum_def
      columns_to_dataframe rows_of_type categories_of_rows amounts_of_category
      rows_to_dataframe_Nil categoryExpense_def)



lemma generate_report_ledger:
  assumes "xs \<noteq> []"
  shows "\<exists>r. generate_report now (to_dataframe xs) = Inr r \<and>
             numbers r = [totalIncome xs, totalExpense xs, totalIncome xs - totalExpense xs]"
  using assms
  by (simp add: generate_report_def getitem_t_type_eq_def getitem_amount_def columns_to_dataframe
      amounts_of_type totalIncome_def totalExpense_def Let_def)

lemma page_ledger:
  assumes "xs \<noteq> []"
  shows "\<exists>r p. generate_report now (to_dataframe xs) = Inr r \<and>
           numbers r = [totalIncome xs, totalExpense xs, totalIncome xs - totalExpense xs] \<and>
           pie_data (to_dataframe xs) = Inr p \<and>
           page now (to_dataframe xs) = Inr (Dashboard
             \<lparr>table = to_dataframe xs,
              metrics = [[Text (rupee @ '' ''), Number (totalIncome xs)],
                         [Text (rupee @ '' ''), Number (totalExpense xs)],
                         [Text (rupee @ '' ''), Number (totalIncome xs - totalExpense xs)]],
              warning = (if totalExpense xs > totalIncome xs
                         then Some (warning_sign @ '' Warning: Expenses exceed Income!'') else None),
              bars = [(''Income'', totalIncome xs), (''Expense'', totalExpense xs)],
              pie = p,
              report_text = r\<rparr>)"
proof -
  obtain r where r: "generate_report now (to_dataframe xs) = Inr r"
    and n: "numbers r = [totalIncome xs, totalExpense xs, totalIncome xs - totalExpense xs]"
    using generate_report_ledger [OF assms] by blast
  obtain p where p: "pie_data (to_dataframe xs) = Inr p"
    using assms by (cases "filter (\<lambda>t. get_type t = ''Expense'') xs = []") (simp_all add: pie_data_ledger)
  show ?thesis
    using assms r n p by (simp add: page_def df_empty_to_dataframe ui_totals_ledger)
qed

lemma page_empty: "page now (to_dataframe []) = Inr (Info ''No transactions added yet.'')"
  by (simp add: page_def df_empty_to_dataframe)

lemma page_numbers:
  assumes "xs \<noteq> []"
  shows "\<exists>v. page now (to_dataframe xs) = Inr v \<and>
             metric_numbers v = [totalIncome xs, totalExpense xs, totalIncome xs - totalExpense xs] \<and>
             report_numbers v = [totalIncome xs, totalExpense xs, totalIncome xs - totalExpense xs]"
  using page_ledger [OF assms, of now] by auto


subsection \<open>Float64 rounding\<close>




























subsection \<open>Transactions\<close>

text \<open>
  C8. For every Income transaction \<open>apply\<close> returns the amount and \<open>get_type\<close> the
  constant string \<open>''Income''\<close>; for every Expense transaction \<open>apply\<close> returns the
  negated amount and \<open>get_type\<close> the constant string \<open>''Expense''\<close>.
\<close>

theorem variant_contract:
  "apply_txn (Income d c a) = a \<and> get_type (Income d c a) = ''Income'' \<and>
   apply_txn (Expense d c a) = - a \<and> get_type (Expense d c a) = ''Expense''"
  by simp

text \<open>
  C1, as the specification states it: constructing an Income or an Expense with an
  amount that is not positive fails. The constructor has no check: an Expense of amount 0
  is constructed, and it is an object whose amount is not positive.
\<close>

theorem construction_zero_amount_counterexample:
  "Transaction_init Expense (Date 2024 1 1) ''Food'' 0 = Inr (Expense (Date 2024 1 1) ''Food'' 0) \<and>
   txn_amount (Expense (Date 2024 1 1) ''Food'' 0) \<le> 0"
  by (simp add: Transaction_init_def)

text \<open>
  C1, amended: for every date, category and amount, constructing an Income or an Expense
  succeeds and the object holds the amount as given, also when the amount is not positive.
  The rule is enforced by \<^verbatim>\<open>add_transaction\<close>: a transaction whose amount is not
  positive is rejected there with the ValueError and the ledger stays as it was, so no
  such transaction enters the ledger.
\<close>

theorem construction_never_fails:
  "Transaction_init Income d c a = Inr (Income d c a) \<and> txn_amount (Income d c a) = a \<and>
   Transaction_init Expense d c a = Inr (Expense d c a) \<and> txn_amount (Expense d c a) = a \<and>
   (a \<le> 0 \<longrightarrow>
      add_transaction (Income d c a) data = (Inl (ValueError ''Amount must be positive''), data) \<and>
      add_transaction (Expense d c a) data = (Inl (ValueError ''Amount must be positive''), data))"
  by (simp add: Transaction_init_def add_transaction_def)

theorem construction_never_fails_witness:
  "(- 5 :: real) \<le> 0 \<and>
   Transaction_init Income (Date 2024 1 1) ''Salary'' (- 5) = Inr (Income (Date 2024 1 1) ''Salary'' (- 5)) \<and>
   add_transaction (Income (Date 2024 1 1) ''Salary'' (- 5)) scenario
     = (Inl (ValueError ''Amount must be positive''), scenario) \<and>
   add_transaction (Expense (Date 2024 1 1) ''Salary'' (- 5)) scenario
     = (Inl (ValueError ''Amount must be positive''), scenario)"
  using construction_never_fails [of "Date 2024 1 1" "''Salary''" "- 5" scenario] by simp

subsection \<open>The ledger\<close>

text \<open>
  C2. For every ledger and every transaction whose amount is at most 0,
  \<^verbatim>\<open>add_transaction\<close> raises the ValueError (the validation error of the specification)
  and leaves the ledger exactly as it was. An add is atomic: for any transaction at all,
  it either raises and leaves the ledger as it was, or returns and leaves the ledger with
  the transaction appended.
\<close>

theorem add_transaction_rejects:
  "(txn_amount t \<le> 0 \<longrightarrow>
      add_transaction t data = (Inl (ValueError ''Amount must be positive''), data)) \<and>
   (add_transaction t' data = (Inl (ValueError ''Amount must be positive''), data) \<or>
    add_transaction t' data = (Inr (), data @ [t']))"
  by (simp add: add_transaction_def)

theorem add_transaction_rejects_witness:
  "txn_amount (Expense (Date 2024 1 1) ''Food'' 0) \<le> 0 \<and>
   add_transaction (Expense (Date 2024 1 1) ''Food'' 0) scenario
     = (Inl (ValueError ''Amount must be positive''), scenario) \<and>
   length (snd (add_transaction (Expense (Date 2024 1 1) ''Food'' 0) [])) = 0"
  using add_transaction_rejects [of "Expense (Date 2024 1 1) ''Food'' 0" scenario]
    add_transaction_rejects [of "Expense (Date 2024 1 1) ''Food'' 0" "[]"]
  by simp

text \<open>
  C3. For every ledger and every transaction whose amount is positive,
  \<^verbatim>\<open>add_transaction\<close> returns, the ledger is one longer, the new transaction is its
  last element, and the transactions stored before are all there, unchanged and in their
  order.
\<close>

theorem add_transaction_appends:
  assumes "0 < txn_amount t"
  shows "add_transaction t data = (Inr (), data @ [t]) \<and>
         length (snd (add_transaction t data)) = length data + 1 \<and>
         last (snd (add_transaction t data)) = t \<and>
         butlast (snd (add_transaction t data)) = data \<and>
         (\<forall>i<length data. snd (add_transaction t data) ! i = data ! i)"
  using assms by (simp add: add_transaction_def nth_append)

theorem add_transaction_appends_witness:
  "0 < txn_amount (Expense (Date 2024 2 1) ''Travel'' 700) \<and>
   add_transaction (Expense (Date 2024 2 1) ''Travel'' 700) scenario
     = (Inr (), scenario @ [Expense (Date 2024 2 1) ''Travel'' 700]) \<and>
   length (snd (add_transaction (Expense (Date 2024 2 1) ''Travel'' 700) scenario)) = 5 \<and>
   snd (add_transaction (Expense (Date 2024 2 1) ''Travel'' 700) scenario) ! 0
     = Income (Date 2024 1 1) ''Salary'' 50000"
proof -
  have pos: "0 < txn_amount (Expense (Date 2024 2 1) ''Travel'' 700)" by simp
  show ?thesis
    using add_transaction_appends [OF pos, of scenario] by (simp add: scenario_def)
qed

text \<open>
  C9. Every transaction stored in the ledger has a positive amount: this holds of the
  ledger of a fresh session, every operation of the tracker preserves it and keeps the
  transactions stored so far, unchanged, as the front of the ledger, and so it holds
  after any sequence of operations.
\<close>

theorem ledger_amounts_positive:
  "FinanceTracker_init None = [] \<and>
   ((\<forall>t\<in>set data. 0 < txn_amount t) \<longrightarrow> (\<forall>t\<in>set (exec op data). 0 < txn_amount t)) \<and>
   take (length data) (exec op data) = data \<and>
   (\<forall>t\<in>set (run ops). 0 < txn_amount t)"
proof -
  have step: "(\<forall>t\<in>set (exec op data). 0 < txn_amount t)"
    if "\<forall>t\<in>set data. 0 < txn_amount t" for op data
    using that by (cases op) (auto simp: FinanceTracker_init_def add_transaction_def)
  have front: "take (length data) (exec op data) = data"
    by (cases op) (simp_all add: FinanceTracker_init_def add_transaction_def)
  have fold: "\<forall>t\<in>set (foldl (\<lambda>data op. exec op data) s ops). 0 < txn_amount t"
    if "\<forall>t\<in>set s. 0 < txn_amount t" for s
    using that
  proof (induction ops arbitrary: s)
    case Nil
    then show ?case by simp
  next
    case (Cons op ops)
    have "\<forall>t\<in>set (exec op s). 0 < txn_amount t"
      using Cons.prems by (rule step)
    then show ?case
      using Cons.IH by simp
  qed
  have "\<forall>t\<in>set (run ops). 0 < txn_amount t"
    unfolding run_def by (rule fold) (simp add: FinanceTracker_init_def)
  then show ?thesis
    using step front by (simp add: FinanceTracker_init_def)
qed

theorem ledger_amounts_positive_witness:
  "run [Construct, AddTransaction (Income (Date 2024 1 1) ''Salary'' 50000),
        AddTransaction (Expense (Date 2024 1 1) ''Food'' 0), ToDataframe,
        AddTransaction (Expense (Date 2024 1 10) ''Rent'' 15000)]
     = [Income (Date 2024 1 1) ''Salary'' 50000, Expense (Date 2024 1 10) ''Rent'' 15000] \<and>
   0 < txn_amount (Income (Date 2024 1 1) ''Salary'' 50000) \<and>
   0 < txn_amount (Expense (Date 2024 1 10) ''Rent'' 15000) \<and>
   exec (AddTransaction (Expense (Date 2024 1 1) ''Food'' (- 1))) [Income (Date 2024 1 1) ''Salary'' 50000]
     = [Income (Date 2024 1 1) ''Salary'' 50000]"
  using ledger_amounts_positive
    [of "[Income (Date 2024 1 1) ''Salary'' 50000]"
        "AddTransaction (Expense (Date 2024 1 1) ''Food'' (- 1))"
        "[Construct, AddTransaction (Income (Date 2024 1 1) ''Salary'' 50000),
          AddTransaction (Expense (Date 2024 1 1) ''Food'' 0), ToDataframe,
          AddTransaction (Expense (Date 2024 1 10) ''Rent'' 15000)]"]
  by (simp add: run_def FinanceTracker_init_def add_transaction_def)

subsection \<open>The aggregates\<close>






text \<open>
  C6, as the specification states it: the report contains the per-category breakdown of
  the expenses next to the three totals. Two ledgers with the same totals and different
  breakdowns have the same report, whose only numbers are the three totals: the amounts per
  category (30 and 20, against 20 and 30) are not in it.
\<close>

theorem report_has_no_breakdown_counterexample:
  "generate_report noon
     (to_dataframe [Expense (Date 2024 1 10) ''Food'' 30, Expense (Date 2024 1 12) ''Rent'' 20])
   = generate_report noon
     (to_dataframe [Expense (Date 2024 1 10) ''Food'' 20, Expense (Date 2024 1 12) ''Rent'' 30]) \<and>
   pie_data (to_dataframe [Expense (Date 2024 1 10) ''Food'' 30, Expense (Date 2024 1 12) ''Rent'' 20])
     = Inr (Some [(''Food'', 30), (''Rent'', 20)]) \<and>
   pie_data (to_dataframe [Expense (Date 2024 1 10) ''Food'' 20, Expense (Date 2024 1 12) ''Rent'' 30])
     = Inr (Some [(''Food'', 20), (''Rent'', 30)]) \<and>
   map_sum id numbers (generate_report noon
     (to_dataframe [Expense (Date 2024 1 10) ''Food'' 30, Expense (Date 2024 1 12) ''Rent'' 20]))
     = Inr [0, 50, - 50]"
  by (simp add: generate_report_def pie_data_def to_dataframe_def DataFrame_def
      getitem_t_type_eq_def getitem_amount_def df_empty_def groupby_category_amount_sum_def)

text \<open>
  C6, amended: for every sequence of transactions that is not empty, the report is the
  fixed text with three numbers put in, the total income, the total expense and the
  balance, in this order, followed by the clock reading in the format
  \<^verbatim>\<open>%d-%m-%Y %H:%M\<close>. The breakdown per category is not part of the report (the page
  shows it in the pie chart only).
\<close>

theorem report_contents:
  assumes "xs \<noteq> []"
  shows "generate_report now (to_dataframe xs) =
     Inr [Text (''PERSONAL FINANCE REPORT\<newline>------------------------\<newline>Total Income  : ''
                @ rupee @ '' ''),
          Number (totalIncome xs),
          Text (''\<newline>Total Expense : '' @ rupee @ '' ''),
          Number (totalExpense xs),
          Text (''\<newline>Savings/Loss  : '' @ rupee @ '' ''),
          Number (totalIncome xs - totalExpense xs),
          Text ''\<newline>\<newline>Generated on  : '',
          Strftime ''%d-%m-%Y %H:%M'' now,
          Text ''\<newline>'']"
  using assms
  by (simp add: generate_report_def getitem_t_type_eq_def getitem_amount_def columns_to_dataframe
      amounts_of_type totalIncome_def totalExpense_def Let_def)

theorem report_contents_witness:
  "scenario \<noteq> [] \<and>
   generate_report noon (to_dataframe scenario) =
     Inr [Text (''PERSONAL FINANCE REPORT\<newline>------------------------\<newline>Total Income  : ''
                @ rupee @ '' ''),
          Number 52000,
          Text (''\<newline>Total Expense : '' @ rupee @ '' ''),
          Number 18000,
          Text (''\<newline>Savings/Loss  : '' @ rupee @ '' ''),
          Number 34000,
          Text ''\<newline>\<newline>Generated on  : '',
          Strftime ''%d-%m-%Y %H:%M'' (Datetime 2024 1 31 12 0 0),
          Text ''\<newline>'']"
proof -
  have ne: "scenario \<noteq> []"
    by (simp add: scenario_def)
  have inc: "totalIncome scenario = 52000" and exp: "totalExpense scenario = 18000"
    by (simp_all add: scenario_def totalIncome_def totalExpense_def)
  show ?thesis
    using report_contents [OF ne, of noon] ne inc exp by (simp add: noon_def)
qed

text \<open>
  C7, as the specification states it: on the empty ledger the aggregation yields 0 for the
  total income, the total expense and the balance, and an empty grouping. The table of the
  empty ledger has no columns, and each aggregation of the code raises KeyError on it.
\<close>

theorem empty_ledger_totals_counterexample:
  "ui_totals (to_dataframe (FinanceTracker_init None)) = Inl (KeyError ''t_type'') \<and>
   generate_report noon (to_dataframe (FinanceTracker_init None)) = Inl (KeyError ''t_type'') \<and>
   pie_data (to_dataframe (FinanceTracker_init None)) = Inl (KeyError ''t_type'')"
  by (simp add: FinanceTracker_init_def ui_totals_def generate_report_def pie_data_def
      to_dataframe_def DataFrame_def getitem_t_type_eq_def)

text \<open>
  C7, amended: on the empty ledger the table is empty and has no columns, the page
  computes no aggregate and shows only the notice that no transaction was added; the
  aggregations themselves are not defined on this table (they raise KeyError for the
  column \<open>t_type\<close>), at any reading of the clock.
\<close>

theorem empty_ledger_page:
  "df_empty (to_dataframe (FinanceTracker_init None)) \<and>
   columns (to_dataframe (FinanceTracker_init None)) = [] \<and>
   page now (to_dataframe (FinanceTracker_init None)) = Inr (Info ''No transactions added yet.'') \<and>
   ui_totals (to_dataframe (FinanceTracker_init None)) = Inl (KeyError ''t_type'') \<and>
   generate_report now (to_dataframe (FinanceTracker_init None)) = Inl (KeyError ''t_type'') \<and>
   pie_data (to_dataframe (FinanceTracker_init None)) = Inl (KeyError ''t_type'')"
  by (simp add: FinanceTracker_init_def page_empty df_empty_to_dataframe columns_to_dataframe
      ui_totals_ledger pie_data_ledger generate_report_def getitem_t_type_eq_def)

text \<open>
  C10. The totals computed inside the report generator and the totals computed by the
  page are equal: on every table the two computations give the same three numbers, or
  raise the same exception; and for every sequence of transactions the numbers that the
  page shows in its metrics are the numbers of the report it shows, which for a sequence
  that is not empty are the total income, the total expense and the balance.
\<close>

theorem report_and_page_totals_agree:
  "map_sum id numbers (generate_report now df) = map_sum id (\<lambda>(i, e, b). [i, e, b]) (ui_totals df) \<and>
   map_sum id metric_numbers (page now (to_dataframe xs))
     = map_sum id report_numbers (page now (to_dataframe xs)) \<and>
   (xs \<noteq> [] \<longrightarrow>
      map_sum id metric_numbers (page now (to_dataframe xs))
        = Inr [totalIncome xs, totalExpense xs, totalIncome xs - totalExpense xs])"
proof -
  have same: "map_sum id numbers (generate_report now df)
                = map_sum id (\<lambda>(i, e, b). [i, e, b]) (ui_totals df)"
    by (simp add: generate_report_def ui_totals_def getitem_t_type_eq_def getitem_amount_def Let_def)
  show ?thesis
  proof (cases "xs = []")
    case True
    then show ?thesis
      using same by (simp add: page_empty)
  next
    case False
    then obtain v where "page now (to_dataframe xs) = Inr v"
      and "metric_numbers v = [totalIncome xs, totalExpense xs, totalIncome xs - totalExpense xs]"
      and "report_numbers v = [totalIncome xs, totalExpense xs, totalIncome xs - totalExpense xs]"
      using page_numbers [of xs now] by blast
    then show ?thesis
      using same by simp
  qed
qed

theorem report_and_page_totals_agree_witness:
  "scenario \<noteq> [] \<and>
   map_sum id metric_numbers (page noon (to_dataframe scenario)) = Inr [52000, 18000, 34000] \<and>
   map_sum id report_numbers (page noon (to_dataframe scenario)) = Inr [52000, 18000, 34000] \<and>
   map_sum id numbers (generate_report noon (to_dataframe scenario)) = Inr [52000, 18000, 34000] \<and>
   ui_totals (to_dataframe scenario) = Inr (52000, 18000, 34000)"
proof -
  have ne: "scenario \<noteq> []"
    by (simp add: scenario_def)
  have inc: "totalIncome scenario = 52000" and exp: "totalExpense scenario = 18000"
    by (simp_all add: scenario_def totalIncome_def totalExpense_def)
  have ui: "ui_totals (to_dataframe scenario) = Inr (52000, 18000, 34000)"
    by (simp add: scenario_def ui_totals_def to_dataframe_def DataFrame_def getitem_t_type_eq_def
        getitem_amount_def)
  note agree = report_and_page_totals_agree [of noon "to_dataframe scenario" scenario]
  have report: "map_sum id numbers (generate_report noon (to_dataframe scenario))
                  = Inr [52000, 18000, 34000]"
    using agree ui by auto
  have shown: "map_sum id metric_numbers (page noon (to_dataframe scenario))
                 = Inr [52000, 18000, 34000]"
    using agree ne inc exp by auto
  have "map_sum id report_numbers (page noon (to_dataframe scenario))
          = map_sum id metric_numbers (page noon (to_dataframe scenario))"
    using agree by auto
  then show ?thesis
    using ne ui report shown by simp
qed

end
